theory Spec2Isabelle
  imports Main "HOL-Library.AList"
begin

section \<open>The authenticated API client\<close>

text \<open>
  The module \<open>api/client\<close> (src/unnamed/part_002; the other modules import it as
  \<open>./client\<close>) creates an axios instance \<open>apiClient\<close> with two interceptors: a request
  interceptor that attaches the bearer token read from the auth store, and a response
  interceptor that answers a first HTTP 401 with one token refresh and one retry.

  The embedding follows one originating request through the interceptors, with no other
  task changing the store between its steps. Effects are explicit: the auth store and
  \<open>window.location.href\<close> are fields of a state record that every function returns
  updated, and each externally visible action (a request handed to the HTTP adapter, the
  refresh call, a store update, a navigation) is appended to a trace. The network is a
  parameter: its answer may depend on the request and on the whole trace so far. A
  promise is the value it settles to.
\<close>

subsection \<open>Values\<close>

text \<open>
  A token is a JavaScript value: undefined, null, or a string (tokens are strings in the
  backend's contract; numbers and other values are not modelled).
\<close>

datatype js_value = Undefined | Null | Str string

text \<open>
  \<open>truthy\<close> is the test \<open>if (token)\<close>: undefined, null and the empty string are falsy.
\<close>

definition truthy :: "js_value \<Rightarrow> bool" where
  "truthy v = (case v of Undefined \<Rightarrow> False | Null \<Rightarrow> False | Str s \<Rightarrow> s \<noteq> [])"

text \<open>
  What a value prints as inside a template literal: \<open>undefined\<close>, \<open>null\<close>, or the
  string itself.
\<close>

definition template :: "js_value \<Rightarrow> string" where
  "template v = (case v of Undefined \<Rightarrow> ''undefined'' | Null \<Rightarrow> ''null'' | Str s \<Rightarrow> s)"

text \<open>The template literal \<open>`Bearer ${t}`\<close> of lines 18 and 50.\<close>

definition bearer :: "js_value \<Rightarrow> string" where
  "bearer t = ''Bearer '' @ template t"

text \<open>
  A response body (\<open>response.data\<close>, of type \<open>any\<close>): null or undefined, a primitive
  string, or an object whose fields hold tokens.
\<close>

datatype payload = Nullish | Text string | Object "(string \<times> js_value) list"

text \<open>
  Reading a property of an object: a missing property reads as undefined.
\<close>

definition property :: "(string \<times> js_value) list \<Rightarrow> string \<Rightarrow> js_value" where
  "property kv k = (case map_of kv k of None \<Rightarrow> Undefined | Some v \<Rightarrow> v)"

text \<open>
  The destructuring \<open>const { access_token, refresh_token } = response.data\<close>: it throws
  a TypeError on null and undefined (\<open>None\<close> here); a primitive string has neither
  property.
\<close>

definition destructure :: "payload \<Rightarrow> (js_value \<times> js_value) option" where
  "destructure d =
     (case d of
        Nullish \<Rightarrow> None
      | Text s \<Rightarrow> Some (Undefined, Undefined)
      | Object kv \<Rightarrow> Some (property kv ''access_token'', property kv ''refresh_token''))"

subsection \<open>The auth store\<close>

record auth_store =
  accessToken :: js_value
  refreshToken :: js_value

text \<open>
  Modelled from the spec: the store module \<open>@/store/authSlice\<close> is not among the
  sources. \<open>setTokens\<close> follows section 4.1 ("store the returned new access and refresh
  tokens in the credential store, replacing the old pair ... a single indivisible
  assignment of both fields together").
\<close>

definition setTokens :: "js_value \<Rightarrow> js_value \<Rightarrow> auth_store \<Rightarrow> auth_store" where
  "setTokens access_token refresh_token st =
     st\<lparr>accessToken := access_token, refreshToken := refresh_token\<rparr>"

text \<open>
  Modelled from the spec: the store module \<open>@/store/authSlice\<close> is not among the
  sources. \<open>logout\<close> follows section 4.1 ("invoke logout (clear credential pair)"): both
  tokens become null.
\<close>

definition logout :: "auth_store \<Rightarrow> auth_store" where
  "logout st = st\<lparr>accessToken := Null, refreshToken := Null\<rparr>"

subsection \<open>Requests, responses, errors\<close>

text \<open>
  A request config. \<open>headers\<close> is optional in a caller's config; \<open>retry\<close> is the private
  marker \<open>_retry\<close> (absent reads as false). Header names are compared as written.
\<close>

record config =
  url :: string
  http_method :: string
  baseURL :: "string option"
  headers :: "(string \<times> string) list option"
  params :: "(string \<times> js_value) list"
  body :: payload
  retry :: bool

record response =
  status :: nat
  data :: payload

text \<open>
  An AxiosError: the config of the request that failed, an error code, and the HTTP
  response when there was one (a network or transport error has none). The config is
  always there, as the cast \<open>error.config as InternalAxiosRequestConfig\<close> of line 29
  takes it to be.
\<close>

record axios_error =
  err_config :: config
  err_code :: string
  err_response :: "response option"

text \<open>What a dispatch yields: a response that resolves, or a failure.\<close>

datatype outcome = Fulfilled response | Failed string "response option"

text \<open>What the caller's promise settles to.\<close>

datatype result = Resolved response | Rejected axios_error

subsection \<open>Trace, state, environment\<close>

datatype event =
    Dispatched auth_store config
  | RefreshPost config
  | SetTokens js_value js_value
  | Logout
  | Navigate string

text \<open>
  \<open>Dispatched st c\<close>: the config \<open>c\<close> left the request interceptor of \<open>apiClient\<close> and
  went to the adapter while the store was \<open>st\<close>. \<open>RefreshPost c\<close>: \<open>axios.post\<close> on the
  bare axios instance.
\<close>

record client_state =
  store :: auth_store
  href :: string
  trace :: "event list"

text \<open>
  The environment: the build-time variable \<open>VITE_API_URL\<close>, the adapter behind
  \<open>apiClient\<close>, and the bare axios instance used for the refresh call. Both network
  functions see the trace of everything that happened before the call.
\<close>

record world =
  VITE_API_URL :: "string option"
  adapter :: "event list \<Rightarrow> config \<Rightarrow> outcome"
  bare_post :: "event list \<Rightarrow> config \<Rightarrow> outcome"

text \<open>\<open>const API_URL = import.meta.env.VITE_API_URL || '/api/v1'\<close>\<close>

definition API_URL :: "world \<Rightarrow> string" where
  "API_URL w =
     (case VITE_API_URL w of
        None \<Rightarrow> ''/api/v1''
      | Some u \<Rightarrow> if u \<noteq> [] then u else ''/api/v1'')"

subsection \<open>The instance and its interceptors\<close>

text \<open>
  \<open>axios.create({ baseURL: API_URL, headers: { 'Content-Type': 'application/json' } })\<close>:
  every request through the instance is first merged over these defaults, so the config
  the interceptors see always has a headers object. The merge keeps the other fields of
  the request, the \<open>_retry\<close> marker among them.
\<close>

definition default_headers :: "(string \<times> string) list" where
  "default_headers = [(''Content-Type'', ''application/json'')]"

definition mergeConfig :: "world \<Rightarrow> config \<Rightarrow> config" where
  "mergeConfig w cfg =
     cfg\<lparr>baseURL := (case baseURL cfg of None \<Rightarrow> Some (API_URL w) | Some b \<Rightarrow> Some b),
         headers := (case headers cfg of
                       None \<Rightarrow> Some default_headers
                     | Some h \<Rightarrow> Some (AList.merge default_headers h))\<rparr>"

text \<open>The request interceptor (lines 14-23).\<close>

definition request_onFulfilled :: "auth_store \<Rightarrow> config \<Rightarrow> config" where
  "request_onFulfilled st cfg =
     (let accessToken = accessToken st in
      if truthy accessToken \<and> headers cfg \<noteq> None
      then cfg\<lparr>headers := Some (AList.update ''Authorization'' (bearer accessToken)
                                               (the (headers cfg)))\<rparr>
      else cfg)"

text \<open>The request interceptor's error handler (line 22).\<close>

definition request_onRejected :: "axios_error \<Rightarrow> result" where
  "request_onRejected error = Rejected error"

text \<open>The response interceptor's success handler (line 27).\<close>

definition response_onFulfilled :: "response \<Rightarrow> response" where
  "response_onFulfilled response = response"

text \<open>The condition \<open>error.response?.status === 401\<close>.\<close>

definition status_is_401 :: "axios_error \<Rightarrow> bool" where
  "status_is_401 error =
     (case err_response error of None \<Rightarrow> False | Some r \<Rightarrow> status r = 401)"

text \<open>The refresh call's request (lines 41-43), sent on the bare axios instance.\<close>

definition refresh_request :: "world \<Rightarrow> js_value \<Rightarrow> config" where
  "refresh_request w refresh_token =
     \<lparr>url = API_URL w @ ''/auth/refresh'', http_method = ''post'', baseURL = None,
      headers = None, params = [(''refresh_token'', refresh_token)], body = Nullish,
      retry = False\<rparr>"

text \<open>
  \<open>if (originalRequest.headers) { originalRequest.headers.Authorization = v }\<close>
  (lines 49-51).
\<close>

definition with_authorization :: "string \<Rightarrow> config \<Rightarrow> config" where
  "with_authorization v originalRequest =
     (case headers originalRequest of
        None \<Rightarrow> originalRequest
      | Some h \<Rightarrow> originalRequest\<lparr>headers := Some (AList.update ''Authorization'' v h)\<rparr>)"

text \<open>\<open>logout(); window.location.href = '/login'\<close> (lines 55-56 and 59-60).\<close>

definition logout_and_redirect :: "client_state \<Rightarrow> client_state" where
  "logout_and_redirect cs =
     cs\<lparr>store := logout (store cs), href := ''/login'',
        trace := trace cs @ [Logout, Navigate ''/login'']\<rparr>"

text \<open>
  \<open>apiClient cfg\<close> is a call of the instance: merge, request interceptor, adapter, then
  the response interceptor. \<open>onRejected\<close> is the response interceptor's error handler
  (lines 28-65). The error that axios builds carries the very config that was
  dispatched, so the marker set by line 35 is on the config that line 52 sends again,
  and on the error that line 64 rejects with. Inside the \<open>try\<close> of lines 40-53 two things
  can throw, the awaited refresh call and the destructuring of its body; both end in the
  \<open>catch\<close>. The promise returned by line 52 is not awaited there, so a failure of the
  retry is not caught: it is what the caller gets.

  The two functions call each other (line 52 calls the instance from inside its own
  interceptor). The recursion ends because line 52 is reached only for a config that was
  not marked, and the config it passes on is marked.
\<close>

function apiClient :: "world \<Rightarrow> client_state \<Rightarrow> config \<Rightarrow> result \<times> client_state"
  and onRejected :: "world \<Rightarrow> client_state \<Rightarrow> axios_error \<Rightarrow> result \<times> client_state"
where
  "apiClient w cs cfg =
     (let config = request_onFulfilled (store cs) (mergeConfig w cfg);
          cs1 = cs\<lparr>trace := trace cs @ [Dispatched (store cs) config]\<rparr>
      in case adapter w (trace cs) config of
           Fulfilled response \<Rightarrow> (Resolved (response_onFulfilled response), cs1)
         | Failed code resp \<Rightarrow>
             onRejected w cs1
               \<lparr>err_config = config, err_code = code, err_response = resp\<rparr>)"
| "onRejected w cs error =
     (if status_is_401 error \<and> \<not> retry (err_config error)
      then
        let originalRequest = (err_config error)\<lparr>retry := True\<rparr>;
            error = error\<lparr>err_config := originalRequest\<rparr>;
            refreshToken = refreshToken (store cs)
        in if truthy refreshToken
           then
             let request = refresh_request w refreshToken;
                 cs1 = cs\<lparr>trace := trace cs @ [RefreshPost request]\<rparr>
             in case bare_post w (trace cs) request of
                  Fulfilled response \<Rightarrow>
                    (case destructure (data response) of
                       Some (access_token, refresh_token) \<Rightarrow>
                         let cs2 = cs1\<lparr>store := setTokens access_token refresh_token (store cs1),
                                       trace := trace cs1 @ [SetTokens access_token refresh_token]\<rparr>;
                             originalRequest =
                               with_authorization (bearer access_token) originalRequest
                         in apiClient w cs2 originalRequest
                     | None \<Rightarrow> (Rejected error, logout_and_redirect cs1))
                | Failed code resp \<Rightarrow> (Rejected error, logout_and_redirect cs1)
           else (Rejected error, logout_and_redirect cs)
      else (Rejected error, cs))"
  by pat_completeness auto

termination
  by (relation "measure (\<lambda>x. case x of
        Inl (w, cs, cfg) \<Rightarrow> (if retry cfg then 1 else 3)
      | Inr (w, cs, e) \<Rightarrow> (if retry (err_config e) then 0 else 2))")
    (auto simp: mergeConfig_def request_onFulfilled_def with_authorization_def Let_def
       split: option.splits)

declare apiClient.simps [simp del] onRejected.simps [simp del]

subsection \<open>Observations on configs and traces\<close>

text \<open>The value of the Authorization header of a config, if it has one.\<close>

definition authorization :: "config \<Rightarrow> string option" where
  "authorization c = (case headers c of None \<Rightarrow> None | Some h \<Rightarrow> map_of h ''Authorization'')"

text \<open>The number of refresh calls, and of requests sent through \<open>apiClient\<close>, in a trace.\<close>

fun refresh_calls :: "event list \<Rightarrow> nat" where
  "refresh_calls [] = 0"
| "refresh_calls (RefreshPost c # evs) = Suc (refresh_calls evs)"
| "refresh_calls (ev # evs) = refresh_calls evs"

fun dispatches :: "event list \<Rightarrow> nat" where
  "dispatches [] = 0"
| "dispatches (Dispatched st c # evs) = Suc (dispatches evs)"
| "dispatches (ev # evs) = dispatches evs"

text \<open>
  A request sent through \<open>apiClient\<close> carries the current token when, the store holding
  a non-empty access token at send time, its Authorization header is \<open>Bearer\<close> followed
  by that token. Other events are not requests of \<open>apiClient\<close>.
\<close>

definition carries_current_token :: "event \<Rightarrow> bool" where
  "carries_current_token ev =
     (case ev of
        Dispatched st c \<Rightarrow>
          (\<forall>t. accessToken st = Str t \<and> t \<noteq> [] \<longrightarrow>
                authorization c = Some (''Bearer '' @ t))
      | _ \<Rightarrow> True)"

text \<open>The events of a run: what it appended to the trace it started from.\<close>

definition new_events :: "client_state \<Rightarrow> client_state \<Rightarrow> event list" where
  "new_events cs cs' = drop (length (trace cs)) (trace cs')"




subsection \<open>Example inputs\<close>

definition ex_store :: auth_store where
  "ex_store = \<lparr>accessToken = Str ''a1'', refreshToken = Str ''r1''\<rparr>"

definition ex_state :: client_state where
  "ex_state = \<lparr>store = ex_store, href = ''/'', trace = []\<rparr>"

definition ex_config :: config where
  "ex_config = \<lparr>url = ''/stocks'', http_method = ''get'', baseURL = None, headers = None,
                 params = [], body = Nullish, retry = False\<rparr>"

text \<open>
  What axios settles for a status under the default \<open>validateStatus\<close>: a 2xx status
  resolves, any other rejects with the response attached.
\<close>

definition answer :: "nat \<Rightarrow> outcome" where
  "answer n =
     (if 200 \<le> n \<and> n < 300 then Fulfilled \<lparr>status = n, data = Text ''ok''\<rparr>
      else Failed ''ERR_BAD_RESPONSE'' (Some \<lparr>status = n, data = Nullish\<rparr>))"

text \<open>
  A server that accepts exactly the requests carrying the bearer token \<open>valid\<close> and
  answers 401 to the others, with a fixed outcome for the refresh call.
\<close>

definition ex_server :: "string \<Rightarrow> outcome \<Rightarrow> world" where
  "ex_server valid refresh_outcome =
     \<lparr>VITE_API_URL = None,
      adapter = (\<lambda>tr c. if authorization c = Some (''Bearer '' @ valid)
                         then answer 200 else answer 401),
      bare_post = (\<lambda>tr c. refresh_outcome)\<rparr>"

definition ex_error :: "config \<Rightarrow> response option \<Rightarrow> axios_error" where
  "ex_error c r = \<lparr>err_config = c, err_code = ''ERR'', err_response = r\<rparr>"

text \<open>The 401 error of the example request, as axios hands it to the response interceptor.\<close>

definition ex_401 :: axios_error where
  "ex_401 =
     \<lparr>err_config = request_onFulfilled ex_store (mergeConfig (ex_server ''a2'' (answer 500)) ex_config),
      err_code = ''ERR_BAD_RESPONSE'',
      err_response = Some \<lparr>status = 401, data = Nullish\<rparr>\<rparr>"

section \<open>Properties\<close>

subsection \<open>The branches of the response interceptor\<close>

lemma retry_mergeConfig [simp]: "retry (mergeConfig w cfg) = retry cfg"
  by (simp add: mergeConfig_def)

lemma retry_request_onFulfilled [simp]: "retry (request_onFulfilled st cfg) = retry cfg"
  by (simp add: request_onFulfilled_def Let_def)

lemma with_authorization_fields [simp]:
  "url (with_authorization v c) = url c"
  "http_method (with_authorization v c) = http_method c"
  "params (with_authorization v c) = params c"
  "body (with_authorization v c) = body c"
  "retry (with_authorization v c) = retry c"
  by (simp_all add: with_authorization_def split: option.split)

lemma onRejected_passthrough:
  "\<not> (status_is_401 e \<and> \<not> retry (err_config e)) \<Longrightarrow> onRejected w cs e = (Rejected e, cs)"
  by (cases "status_is_401 e") (simp_all add: onRejected.simps)

lemma apiClient_retried:
  "retry cfg \<Longrightarrow> apiClient w cs cfg =
     (let config = request_onFulfilled (store cs) (mergeConfig w cfg);
          cs1 = cs\<lparr>trace := trace cs @ [Dispatched (store cs) config]\<rparr>
      in case adapter w (trace cs) config of
           Fulfilled response \<Rightarrow> (Resolved response, cs1)
         | Failed code resp \<Rightarrow>
             (Rejected \<lparr>err_config = config, err_code = code, err_response = resp\<rparr>, cs1))"
  by (simp add: apiClient.simps Let_def onRejected_passthrough response_onFulfilled_def
      split: outcome.split)

lemma snd_apiClient_retried:
  "retry cfg \<Longrightarrow>
   snd (apiClient w cs cfg) =
     cs\<lparr>trace := trace cs @ [Dispatched (store cs) (request_onFulfilled (store cs) (mergeConfig w cfg))]\<rparr>"
  by (simp add: apiClient_retried Let_def split: outcome.split)

lemma onRejected_no_refresh_token:
  "status_is_401 e \<Longrightarrow> \<not> retry (err_config e) \<Longrightarrow> \<not> truthy (refreshToken (store cs)) \<Longrightarrow>
   onRejected w cs e =
     (Rejected (e\<lparr>err_config := (err_config e)\<lparr>retry := True\<rparr>\<rparr>), logout_and_redirect cs)"
  by (simp add: onRejected.simps Let_def)

lemma onRejected_refresh_failed:
  "status_is_401 e \<Longrightarrow> \<not> retry (err_config e) \<Longrightarrow> truthy (refreshToken (store cs)) \<Longrightarrow>
   bare_post w (trace cs) (refresh_request w (refreshToken (store cs))) = Failed code resp \<Longrightarrow>
   onRejected w cs e =
     (Rejected (e\<lparr>err_config := (err_config e)\<lparr>retry := True\<rparr>\<rparr>),
      logout_and_redirect
        (cs\<lparr>trace := trace cs @ [RefreshPost (refresh_request w (refreshToken (store cs)))]\<rparr>))"
  by (simp add: onRejected.simps Let_def)

lemma onRejected_refresh_no_data:
  "status_is_401 e \<Longrightarrow> \<not> retry (err_config e) \<Longrightarrow> truthy (refreshToken (store cs)) \<Longrightarrow>
   bare_post w (trace cs) (refresh_request w (refreshToken (store cs))) = Fulfilled r \<Longrightarrow>
   destructure (data r) = None \<Longrightarrow>
   onRejected w cs e =
     (Rejected (e\<lparr>err_config := (err_config e)\<lparr>retry := True\<rparr>\<rparr>),
      logout_and_redirect
        (cs\<lparr>trace := trace cs @ [RefreshPost (refresh_request w (refreshToken (store cs)))]\<rparr>))"
  by (simp add: onRejected.simps Let_def)

lemma onRejected_refresh_ok:
  "status_is_401 e \<Longrightarrow> \<not> retry (err_config e) \<Longrightarrow> truthy (refreshToken (store cs)) \<Longrightarrow>
   bare_post w (trace cs) (refresh_request w (refreshToken (store cs))) = Fulfilled r \<Longrightarrow>
   destructure (data r) = Some (a, rt) \<Longrightarrow>
   onRejected w cs e =
     apiClient w
       (cs\<lparr>store := setTokens a rt (store cs),
           trace := trace cs @ [RefreshPost (refresh_request w (refreshToken (store cs))),
                                SetTokens a rt]\<rparr>)
       (with_authorization (bearer a) ((err_config e)\<lparr>retry := True\<rparr>))"
  by (simp add: onRejected.simps Let_def)

subsection \<open>Stores, headers and traces\<close>

lemma refresh_calls_append [simp]:
  "refresh_calls (xs @ ys) = refresh_calls xs + refresh_calls ys"
  by (induction xs rule: refresh_calls.induct) simp_all

lemma dispatches_append [simp]:
  "dispatches (xs @ ys) = dispatches xs + dispatches ys"
  by (induction xs rule: dispatches.induct) simp_all

lemma new_events_append [simp]: "trace cs' = trace cs @ evs \<Longrightarrow> new_events cs cs' = evs"
  by (simp add: new_events_def)

lemma status_is_401_mark [simp]:
  "status_is_401 (e\<lparr>err_config := c\<rparr>) = status_is_401 e"
  by (simp add: status_is_401_def)

lemma logout_clears [simp]:
  "accessToken (logout st) = Null" "refreshToken (logout st) = Null"
  by (simp_all add: logout_def)

lemma setTokens_fields [simp]:
  "accessToken (setTokens a r st) = a" "refreshToken (setTokens a r st) = r"
  by (simp_all add: setTokens_def)

lemma headers_mergeConfig: "headers (mergeConfig w cfg) \<noteq> None"
  by (simp add: mergeConfig_def split: option.split)

lemma authorization_mergeConfig [simp]:
  "authorization (mergeConfig w cfg) = authorization cfg"
  by (simp add: authorization_def mergeConfig_def default_headers_def merge_conv'
      map_add_def split: option.split)

lemma truthy_Str: "truthy v \<longleftrightarrow> (\<exists>t. v = Str t \<and> t \<noteq> [])"
  by (cases v) (simp_all add: truthy_def)

lemma bearer_Str [simp]: "bearer (Str t) = ''Bearer '' @ t"
  by (simp add: bearer_def template_def)

lemma bearer_without_string:
  "bearer Undefined = ''Bearer undefined''" "bearer Null = ''Bearer null''"
  by (simp_all add: bearer_def template_def)

lemma request_onFulfilled_truthy:
  "truthy (accessToken st) \<Longrightarrow> headers cfg \<noteq> None \<Longrightarrow>
   authorization (request_onFulfilled st cfg) = Some (bearer (accessToken st))"
  by (auto simp: request_onFulfilled_def authorization_def Let_def
      update_Some_unfold split: option.splits)

lemma request_onFulfilled_falsy:
  "\<not> truthy (accessToken st) \<Longrightarrow> request_onFulfilled st cfg = cfg"
  by (simp add: request_onFulfilled_def Let_def)

lemma same_request_prepared [simp]:
  "url (request_onFulfilled st (mergeConfig w cfg)) = url cfg"
  "http_method (request_onFulfilled st (mergeConfig w cfg)) = http_method cfg"
  "params (request_onFulfilled st (mergeConfig w cfg)) = params cfg"
  "body (request_onFulfilled st (mergeConfig w cfg)) = body cfg"
  by (simp_all add: request_onFulfilled_def mergeConfig_def Let_def)

lemma dispatched_carries_current_token:
  "carries_current_token (Dispatched st (request_onFulfilled st (mergeConfig w cfg)))"
  by (auto simp: carries_current_token_def request_onFulfilled_truthy headers_mergeConfig
      truthy_Str)

text \<open>
  A run only appends to the trace. What the error handler appends holds at most one
  refresh call and at most one request; what a call of the instance appends holds at
  most one refresh call and one or two requests; and every request in it carries the
  token the store held when it was sent.
\<close>

lemma onRejected_new_events:
  "\<exists>evs. trace (snd (onRejected w cs e)) = trace cs @ evs \<and>
         list_all carries_current_token evs \<and>
         refresh_calls evs \<le> 1 \<and> dispatches evs \<le> 1"
proof (cases "status_is_401 e \<and> \<not> retry (err_config e)")
  case False
  then show ?thesis
    by (simp add: onRejected_passthrough)
next
  case fresh: True
  show ?thesis
  proof (cases "truthy (refreshToken (store cs))")
    case False
    with fresh show ?thesis
      by (simp add: onRejected_no_refresh_token logout_and_redirect_def carries_current_token_def)
  next
    case token: True
    show ?thesis
    proof (cases "bare_post w (trace cs) (refresh_request w (refreshToken (store cs)))")
      case (Failed code resp)
      with fresh token show ?thesis
        by (simp add: onRejected_refresh_failed logout_and_redirect_def carries_current_token_def)
    next
      case (Fulfilled r)
      show ?thesis
      proof (cases "destructure (data r)")
        case None
        with fresh token Fulfilled show ?thesis
          by (simp add: onRejected_refresh_no_data logout_and_redirect_def
              carries_current_token_def)
      next
        case (Some p)
        obtain a rt where p: "p = (a, rt)" by (cases p)
        from fresh token Fulfilled Some p show ?thesis
          by (simp add: onRejected_refresh_ok snd_apiClient_retried
              dispatched_carries_current_token)
            (simp add: carries_current_token_def)
      qed
    qed
  qed
qed

lemma apiClient_new_events:
  "\<exists>evs. trace (snd (apiClient w cs cfg)) = trace cs @ evs \<and>
         list_all carries_current_token evs \<and>
         refresh_calls evs \<le> 1 \<and> dispatches evs \<le> 2 \<and> 1 \<le> dispatches evs"
proof (cases "adapter w (trace cs) (request_onFulfilled (store cs) (mergeConfig w cfg))")
  case (Fulfilled r)
  then show ?thesis
    by (simp add: apiClient.simps Let_def dispatched_carries_current_token)
next
  case (Failed code resp)
  define c where "c = request_onFulfilled (store cs) (mergeConfig w cfg)"
  define cs1 where "cs1 = cs\<lparr>trace := trace cs @ [Dispatched (store cs) c]\<rparr>"
  define e where "e = \<lparr>err_config = c, err_code = code, err_response = resp\<rparr>"
  have run: "apiClient w cs cfg = onRejected w cs1 e"
    using Failed by (simp add: apiClient.simps Let_def c_def cs1_def e_def)
  obtain evs where evs: "trace (snd (onRejected w cs1 e)) = trace cs1 @ evs"
      "list_all carries_current_token evs" "refresh_calls evs \<le> 1" "dispatches evs \<le> 1"
    using onRejected_new_events [of w cs1 e] by blast
  have "trace (snd (apiClient w cs cfg)) = trace cs1 @ evs"
    by (simp add: run evs(1))
  then have "trace (snd (apiClient w cs cfg)) = trace cs @ (Dispatched (store cs) c # evs)"
    by (simp add: cs1_def)
  moreover have "list_all carries_current_token (Dispatched (store cs) c # evs)"
    by (simp add: evs(2) c_def dispatched_carries_current_token)
  moreover have "refresh_calls (Dispatched (store cs) c # evs) \<le> 1"
    using evs(3) by simp
  moreover have "dispatches (Dispatched (store cs) c # evs) \<le> 2"
      "1 \<le> dispatches (Dispatched (store cs) c # evs)"
    using evs(4) by simp_all
  ultimately show ?thesis
    by blast
qed

text \<open>
  The definitions that evaluate the example inputs.
\<close>

lemmas ex_defs = ex_server_def ex_state_def ex_store_def ex_config_def
  answer_def authorization_def request_onFulfilled_def mergeConfig_def default_headers_def
  with_authorization_def refresh_request_def API_URL_def destructure_def property_def
  truthy_def bearer_def template_def status_is_401_def setTokens_def logout_def Let_def

subsection \<open>Refresh and retry after a 401\<close>

text \<open>
  As stated, C1 says that whenever the refresh call succeeds the client stores the
  returned tokens, sends the original request again and hands its outcome to the caller.
  A refresh call that resolves with a null body makes the destructuring of line 45 throw
  inside the \<open>try\<close>, and lines 53-56 catch it: nothing is stored, nothing is sent again,
  the client logs out and redirects, and the caller gets the original 401.
\<close>

theorem refresh_without_body_counterexample:
  "status_is_401 ex_401 \<and> \<not> retry (err_config ex_401) \<and>
   truthy (refreshToken (store ex_state)) \<and>
   bare_post (ex_server ''a2'' (Fulfilled \<lparr>status = 200, data = Nullish\<rparr>)) (trace ex_state)
     \<lparr>url = ''/api/v1/auth/refresh'', http_method = ''post'', baseURL = None, headers = None,
      params = [(''refresh_token'', Str ''r1'')], body = Nullish, retry = False\<rparr> =
     Fulfilled \<lparr>status = 200, data = Nullish\<rparr> \<and>
   onRejected (ex_server ''a2'' (Fulfilled \<lparr>status = 200, data = Nullish\<rparr>)) ex_state ex_401 =
     (Rejected (ex_401\<lparr>err_config := (err_config ex_401)\<lparr>retry := True\<rparr>\<rparr>),
      \<lparr>store = \<lparr>accessToken = Null, refreshToken = Null\<rparr>, href = ''/login'',
       trace =
         [RefreshPost
            \<lparr>url = ''/api/v1/auth/refresh'', http_method = ''post'', baseURL = None,
             headers = None, params = [(''refresh_token'', Str ''r1'')], body = Nullish,
             retry = False\<rparr>,
          Logout, Navigate ''/login'']\<rparr>)"
  by (simp add: onRejected.simps logout_and_redirect_def ex_defs ex_401_def)

text \<open>
  C1, amended. A request that received a 401, is not marked retried, and finds a non-empty
  refresh token in the store makes the client call the refresh endpoint exactly once,
  whatever the outcome of that call: a POST to \<open>API_URL/auth/refresh\<close> on the bare
  instance with the stored refresh token as the parameter \<open>refresh_token\<close>. When that
  call succeeds with a body that is not null or undefined, the client stores the pair
  \<open>a\<close>, \<open>rt\<close> read from the body (for an object, its fields \<open>access_token\<close> and
  \<open>refresh_token\<close>), sends the original request again exactly once (same url, method,
  params and body, marked retried, with the new token in its Authorization header when
  that token is non-empty), and settles the caller's promise with whatever that second
  request yields: its response, or its error.
\<close>

theorem refresh_then_single_retry:
  assumes "status_is_401 e" and "\<not> retry (err_config e)"
    and "truthy (refreshToken (store cs))"
  shows
    "let q = \<lparr>url = API_URL w @ ''/auth/refresh'', http_method = ''post'', baseURL = None,
              headers = None, params = [(''refresh_token'', refreshToken (store cs))],
              body = Nullish, retry = False\<rparr>
     in (\<exists>evs. new_events cs (snd (onRejected w cs e)) = RefreshPost q # evs \<and>
               refresh_calls evs = 0) \<and>
        (data resp = Object kv \<and> map_of kv ''access_token'' = Some a \<and>
         map_of kv ''refresh_token'' = Some rt \<longrightarrow> destructure (data resp) = Some (a, rt)) \<and>
        (bare_post w (trace cs) q = Fulfilled resp \<and> destructure (data resp) = Some (a, rt) \<longrightarrow>
          (let st' = setTokens a rt (store cs);
               tr' = trace cs @ [RefreshPost q, SetTokens a rt];
               c = request_onFulfilled st'
                     (mergeConfig w
                        (with_authorization (bearer a) ((err_config e)\<lparr>retry := True\<rparr>)));
               cs' = cs\<lparr>store := st', trace := tr' @ [Dispatched st' c]\<rparr>
           in accessToken st' = a \<and> refreshToken st' = rt \<and>
              url c = url (err_config e) \<and> http_method c = http_method (err_config e) \<and>
              params c = params (err_config e) \<and> body c = body (err_config e) \<and>
              retry c \<and>
              (\<forall>t. a = Str t \<and> t \<noteq> [] \<longrightarrow> authorization c = Some (''Bearer '' @ t)) \<and>
              dispatches (trace cs') = dispatches (trace cs) + 1 \<and>
              onRejected w cs e =
                (case adapter w tr' c of
                   Fulfilled r \<Rightarrow> (Resolved r, cs')
                 | Failed code r \<Rightarrow>
                     (Rejected \<lparr>err_config = c, err_code = code, err_response = r\<rparr>, cs'))))"
proof -
  define q where "q = refresh_request w (refreshToken (store cs))"
  have q: "\<lparr>url = API_URL w @ ''/auth/refresh'', http_method = ''post'', baseURL = None,
            headers = None, params = [(''refresh_token'', refreshToken (store cs))],
            body = Nullish, retry = False\<rparr> = q"
    by (simp add: q_def refresh_request_def)
  have once: "\<exists>evs. new_events cs (snd (onRejected w cs e)) = RefreshPost q # evs \<and>
      refresh_calls evs = 0"
  proof (cases "bare_post w (trace cs) q")
    case (Failed code r)
    with assms show ?thesis
      by (simp add: q_def onRejected_refresh_failed logout_and_redirect_def new_events_def)
  next
    case (Fulfilled r)
    show ?thesis
    proof (cases "destructure (data r)")
      case None
      with assms Fulfilled show ?thesis
        by (simp add: q_def onRejected_refresh_no_data logout_and_redirect_def new_events_def)
    next
      case (Some p)
      obtain a' rt' where "p = (a', rt')" by (cases p)
      with assms Fulfilled Some show ?thesis
        by (simp add: q_def onRejected_refresh_ok snd_apiClient_retried new_events_def)
    qed
  qed
  have fields: "data resp = Object kv \<and> map_of kv ''access_token'' = Some a \<and>
      map_of kv ''refresh_token'' = Some rt \<longrightarrow> destructure (data resp) = Some (a, rt)"
    by (simp add: destructure_def property_def)
  have retried: "onRejected w cs e =
      (case adapter w (trace cs @ [RefreshPost q, SetTokens a rt])
          (request_onFulfilled (setTokens a rt (store cs))
            (mergeConfig w (with_authorization (bearer a) ((err_config e)\<lparr>retry := True\<rparr>)))) of
         Fulfilled r \<Rightarrow>
           (Resolved r,
            cs\<lparr>store := setTokens a rt (store cs),
               trace := (trace cs @ [RefreshPost q, SetTokens a rt]) @
                 [Dispatched (setTokens a rt (store cs))
                   (request_onFulfilled (setTokens a rt (store cs))
                     (mergeConfig w
                        (with_authorization (bearer a) ((err_config e)\<lparr>retry := True\<rparr>))))]\<rparr>)
       | Failed code r \<Rightarrow>
           (Rejected \<lparr>err_config =
               request_onFulfilled (setTokens a rt (store cs))
                 (mergeConfig w (with_authorization (bearer a) ((err_config e)\<lparr>retry := True\<rparr>))),
              err_code = code, err_response = r\<rparr>,
            cs\<lparr>store := setTokens a rt (store cs),
               trace := (trace cs @ [RefreshPost q, SetTokens a rt]) @
                 [Dispatched (setTokens a rt (store cs))
                   (request_onFulfilled (setTokens a rt (store cs))
                     (mergeConfig w
                        (with_authorization (bearer a) ((err_config e)\<lparr>retry := True\<rparr>))))]\<rparr>))"
    if ok: "bare_post w (trace cs) q = Fulfilled resp" "destructure (data resp) = Some (a, rt)"
  proof -
    have run: "onRejected w cs e =
        apiClient w
          (cs\<lparr>store := setTokens a rt (store cs),
              trace := trace cs @ [RefreshPost q, SetTokens a rt]\<rparr>)
          (with_authorization (bearer a) ((err_config e)\<lparr>retry := True\<rparr>))"
      using assms ok by (simp add: q_def onRejected_refresh_ok)
    have again: "retry (with_authorization (bearer a) ((err_config e)\<lparr>retry := True\<rparr>))"
      by simp
    show ?thesis
      by (simp add: run apiClient_retried [OF again] Let_def split: outcome.split)
  qed
  have header: "authorization (request_onFulfilled (setTokens a rt (store cs))
        (mergeConfig w (with_authorization (bearer a) ((err_config e)\<lparr>retry := True\<rparr>)))) =
        Some (''Bearer '' @ t)" if "a = Str t" "t \<noteq> []" for t
    using that request_onFulfilled_truthy [of "setTokens a rt (store cs)"] headers_mergeConfig
    by (simp add: truthy_Str)
  show ?thesis
    unfolding q Let_def
    using once fields retried header by simp
qed

theorem refresh_then_single_retry_witness:
  "status_is_401 ex_401 \<and> \<not> retry (err_config ex_401) \<and>
   truthy (refreshToken (store ex_state)) \<and>
   fst (onRejected
          (ex_server ''a2'' (Fulfilled \<lparr>status = 200,
             data = Object [(''access_token'', Str ''a2''), (''refresh_token'', Str ''r2'')]\<rparr>))
          ex_state ex_401) = Resolved \<lparr>status = 200, data = Text ''ok''\<rparr> \<and>
   store (snd (onRejected
          (ex_server ''a2'' (Fulfilled \<lparr>status = 200,
             data = Object [(''access_token'', Str ''a2''), (''refresh_token'', Str ''r2'')]\<rparr>))
          ex_state ex_401)) = \<lparr>accessToken = Str ''a2'', refreshToken = Str ''r2''\<rparr> \<and>
   refresh_calls (trace (snd (onRejected
          (ex_server ''a2'' (Fulfilled \<lparr>status = 200,
             data = Object [(''access_token'', Str ''a2''), (''refresh_token'', Str ''r2'')]\<rparr>))
          ex_state ex_401))) = 1 \<and>
   dispatches (trace (snd (onRejected
          (ex_server ''a2'' (Fulfilled \<lparr>status = 200,
             data = Object [(''access_token'', Str ''a2''), (''refresh_token'', Str ''r2'')]\<rparr>))
          ex_state ex_401))) = 1"
  using refresh_then_single_retry
    [where w = "ex_server ''a2'' (Fulfilled \<lparr>status = 200,
             data = Object [(''access_token'', Str ''a2''), (''refresh_token'', Str ''r2'')]\<rparr>)"
       and cs = ex_state and e = ex_401
       and resp = "\<lparr>status = 200,
             data = Object [(''access_token'', Str ''a2''), (''refresh_token'', Str ''r2'')]\<rparr>"
       and kv = "[(''access_token'', Str ''a2''), (''refresh_token'', Str ''r2'')]"
       and a = "Str ''a2''" and rt = "Str ''r2''"]
  by (simp add: ex_defs ex_401_def)

subsection \<open>At most one refresh per request\<close>

text \<open>
  C2. A call of the instance makes at most one refresh call and sends at most two
  requests. A request that is already marked retried never leads to a refresh call, and
  a 401 for such a request is rejected to the caller as it is, with the state unchanged:
  the recovery does not loop.
\<close>

theorem at_most_one_refresh_per_request:
  "refresh_calls (new_events cs (snd (apiClient w cs cfg))) \<le> 1 \<and>
   dispatches (new_events cs (snd (apiClient w cs cfg))) \<le> 2 \<and>
   (retry cfg \<longrightarrow> refresh_calls (new_events cs (snd (apiClient w cs cfg))) = 0) \<and>
   (status_is_401 e \<and> retry (err_config e) \<longrightarrow> onRejected w cs e = (Rejected e, cs))"
proof -
  obtain evs where evs: "trace (snd (apiClient w cs cfg)) = trace cs @ evs"
      "refresh_calls evs \<le> 1" "dispatches evs \<le> 2"
    using apiClient_new_events [of w cs cfg] by blast
  have "retry cfg \<longrightarrow> refresh_calls (new_events cs (snd (apiClient w cs cfg))) = 0"
    by (simp add: snd_apiClient_retried new_events_def)
  moreover have "status_is_401 e \<and> retry (err_config e) \<longrightarrow> onRejected w cs e = (Rejected e, cs)"
    by (simp add: onRejected_passthrough)
  ultimately show ?thesis
    using evs by simp
qed

theorem at_most_one_refresh_per_request_witness:
  "retry (ex_config\<lparr>retry := True\<rparr>) \<and>
   status_is_401 (ex_error (ex_config\<lparr>retry := True\<rparr>) (Some \<lparr>status = 401, data = Nullish\<rparr>)) \<and>
   refresh_calls (new_events ex_state
     (snd (apiClient (ex_server ''a2'' (answer 500)) ex_state (ex_config\<lparr>retry := True\<rparr>)))) = 0 \<and>
   onRejected (ex_server ''a2'' (answer 500)) ex_state
     (ex_error (ex_config\<lparr>retry := True\<rparr>) (Some \<lparr>status = 401, data = Nullish\<rparr>)) =
   (Rejected (ex_error (ex_config\<lparr>retry := True\<rparr>) (Some \<lparr>status = 401, data = Nullish\<rparr>)),
    ex_state)"
  using at_most_one_refresh_per_request
    [where w = "ex_server ''a2'' (answer 500)" and cs = ex_state
       and cfg = "ex_config\<lparr>retry := True\<rparr>"
       and e = "ex_error (ex_config\<lparr>retry := True\<rparr>) (Some \<lparr>status = 401, data = Nullish\<rparr>)"]
  by (simp add: ex_error_def status_is_401_def)

text \<open>
  The scenario of a 401 that persists after the refresh: one refresh call, two requests,
  and the caller gets the second 401, that of the retried request.
\<close>

lemma persistent_401_example:
  "fst (apiClient
         (ex_server ''zz'' (Fulfilled \<lparr>status = 200,
            data = Object [(''access_token'', Str ''a2''), (''refresh_token'', Str ''r2'')]\<rparr>))
         ex_state ex_config) =
     Rejected \<lparr>err_config =
        ex_config\<lparr>baseURL := Some ''/api/v1'',
          headers := Some [(''Content-Type'', ''application/json''), (''Authorization'', ''Bearer a2'')],
          retry := True\<rparr>,
        err_code = ''ERR_BAD_RESPONSE'',
        err_response = Some \<lparr>status = 401, data = Nullish\<rparr>\<rparr> \<and>
   refresh_calls (trace (snd (apiClient
         (ex_server ''zz'' (Fulfilled \<lparr>status = 200,
            data = Object [(''access_token'', Str ''a2''), (''refresh_token'', Str ''r2'')]\<rparr>))
         ex_state ex_config))) = 1 \<and>
   dispatches (trace (snd (apiClient
         (ex_server ''zz'' (Fulfilled \<lparr>status = 200,
            data = Object [(''access_token'', Str ''a2''), (''refresh_token'', Str ''r2'')]\<rparr>))
         ex_state ex_config))) = 2"
  by (simp add: apiClient.simps onRejected.simps ex_defs response_onFulfilled_def ex_config_def)

subsection \<open>The bearer token of outbound requests\<close>

text \<open>
  C3. Every request that a call of the instance hands to the adapter carries an
  Authorization header equal to \<open>Bearer\<close> followed by the access token the store holds at
  the moment it is sent, whenever that token is non-empty. For the first request: the
  config the adapter is asked with is the merged config after the request interceptor,
  it carries the token of the store, and the call's outcome is the adapter's answer to
  that config. For the retry after a refresh: the adapter is asked with a config that
  carries the token the store holds after line 46, and the outcome is its answer to
  that config. Along the whole run, every request recorded in the trace carries the
  token of the store as it was when the request was sent. The refresh call is not sent
  through the instance and is not concerned.
\<close>

theorem requests_carry_current_token:
  "list_all carries_current_token (new_events cs (snd (apiClient w cs cfg))) \<and>
   (let c = request_onFulfilled (store cs) (mergeConfig w cfg);
        cs1 = cs\<lparr>trace := trace cs @ [Dispatched (store cs) c]\<rparr>
    in (accessToken (store cs) = Str t \<and> t \<noteq> [] \<longrightarrow>
          authorization c = Some (''Bearer '' @ t)) \<and>
       apiClient w cs cfg =
         (case adapter w (trace cs) c of
            Fulfilled r \<Rightarrow> (Resolved r, cs1)
          | Failed code resp \<Rightarrow>
              onRejected w cs1 \<lparr>err_config = c, err_code = code, err_response = resp\<rparr>)) \<and>
   (status_is_401 e \<and> \<not> retry (err_config e) \<and> truthy (refreshToken (store cs)) \<and>
    bare_post w (trace cs) (refresh_request w (refreshToken (store cs))) = Fulfilled resp' \<and>
    destructure (data resp') = Some (a, rt) \<longrightarrow>
      (let st' = setTokens a rt (store cs);
           tr' = trace cs @ [RefreshPost (refresh_request w (refreshToken (store cs))),
                             SetTokens a rt];
           c' = request_onFulfilled st'
                  (mergeConfig w
                     (with_authorization (bearer a) ((err_config e)\<lparr>retry := True\<rparr>)));
           cs' = cs\<lparr>store := st', trace := tr' @ [Dispatched st' c']\<rparr>
       in (accessToken st' = Str t' \<and> t' \<noteq> [] \<longrightarrow>
             authorization c' = Some (''Bearer '' @ t')) \<and>
          onRejected w cs e =
            (case adapter w tr' c' of
               Fulfilled r \<Rightarrow> (Resolved r, cs')
             | Failed code r \<Rightarrow>
                 (Rejected \<lparr>err_config = c', err_code = code, err_response = r\<rparr>, cs'))))"
proof -
  obtain evs where evs: "trace (snd (apiClient w cs cfg)) = trace cs @ evs"
      "list_all carries_current_token evs"
    using apiClient_new_events [of w cs cfg] by blast
  then have whole: "list_all carries_current_token (new_events cs (snd (apiClient w cs cfg)))"
    by simp
  have first_header: "accessToken (store cs) = Str t \<and> t \<noteq> [] \<longrightarrow>
      authorization (request_onFulfilled (store cs) (mergeConfig w cfg)) = Some (''Bearer '' @ t)"
    using request_onFulfilled_truthy [of "store cs" "mergeConfig w cfg"] headers_mergeConfig
    by (auto simp: truthy_Str)
  have first_send: "apiClient w cs cfg =
      (case adapter w (trace cs) (request_onFulfilled (store cs) (mergeConfig w cfg)) of
         Fulfilled r \<Rightarrow>
           (Resolved r,
            cs\<lparr>trace := trace cs @
              [Dispatched (store cs) (request_onFulfilled (store cs) (mergeConfig w cfg))]\<rparr>)
       | Failed code resp \<Rightarrow>
           onRejected w
             (cs\<lparr>trace := trace cs @
               [Dispatched (store cs) (request_onFulfilled (store cs) (mergeConfig w cfg))]\<rparr>)
             \<lparr>err_config = request_onFulfilled (store cs) (mergeConfig w cfg),
              err_code = code, err_response = resp\<rparr>)"
    by (simp add: apiClient.simps Let_def response_onFulfilled_def split: outcome.split)
  have retry_header: "accessToken (setTokens a rt (store cs)) = Str t' \<and> t' \<noteq> [] \<longrightarrow>
      authorization (request_onFulfilled (setTokens a rt (store cs))
        (mergeConfig w (with_authorization (bearer a) ((err_config e)\<lparr>retry := True\<rparr>)))) =
      Some (''Bearer '' @ t')"
    using request_onFulfilled_truthy [of "setTokens a rt (store cs)"
        "mergeConfig w (with_authorization (bearer a) ((err_config e)\<lparr>retry := True\<rparr>))"]
      headers_mergeConfig
    by (auto simp: truthy_Str)
  have retry_send: "onRejected w cs e =
      (case adapter w
          (trace cs @ [RefreshPost (refresh_request w (refreshToken (store cs))), SetTokens a rt])
          (request_onFulfilled (setTokens a rt (store cs))
            (mergeConfig w (with_authorization (bearer a) ((err_config e)\<lparr>retry := True\<rparr>)))) of
         Fulfilled r \<Rightarrow>
           (Resolved r,
            cs\<lparr>store := setTokens a rt (store cs),
               trace := (trace cs @ [RefreshPost (refresh_request w (refreshToken (store cs))),
                                     SetTokens a rt]) @
                 [Dispatched (setTokens a rt (store cs))
                   (request_onFulfilled (setTokens a rt (store cs))
                     (mergeConfig w
                        (with_authorization (bearer a) ((err_config e)\<lparr>retry := True\<rparr>))))]\<rparr>)
       | Failed code r \<Rightarrow>
           (Rejected \<lparr>err_config =
               request_onFulfilled (setTokens a rt (store cs))
                 (mergeConfig w (with_authorization (bearer a) ((err_config e)\<lparr>retry := True\<rparr>))),
              err_code = code, err_response = r\<rparr>,
            cs\<lparr>store := setTokens a rt (store cs),
               trace := (trace cs @ [RefreshPost (refresh_request w (refreshToken (store cs))),
                                     SetTokens a rt]) @
                 [Dispatched (setTokens a rt (store cs))
                   (request_onFulfilled (setTokens a rt (store cs))
                     (mergeConfig w
                        (with_authorization (bearer a) ((err_config e)\<lparr>retry := True\<rparr>))))]\<rparr>))"
    if ok: "status_is_401 e" "\<not> retry (err_config e)" "truthy (refreshToken (store cs))"
      "bare_post w (trace cs) (refresh_request w (refreshToken (store cs))) = Fulfilled resp'"
      "destructure (data resp') = Some (a, rt)"
  proof -
    have run: "onRejected w cs e =
        apiClient w
          (cs\<lparr>store := setTokens a rt (store cs),
              trace := trace cs @ [RefreshPost (refresh_request w (refreshToken (store cs))),
                                   SetTokens a rt]\<rparr>)
          (with_authorization (bearer a) ((err_config e)\<lparr>retry := True\<rparr>))"
      using ok by (rule onRejected_refresh_ok)
    have again: "retry (with_authorization (bearer a) ((err_config e)\<lparr>retry := True\<rparr>))"
      by simp
    show ?thesis
      by (simp add: run apiClient_retried [OF again] Let_def split: outcome.split)
  qed
  show ?thesis
    unfolding Let_def
    using whole first_header first_send retry_header retry_send by blast
qed

text \<open>
  The example server accepts only \<open>Bearer a2\<close>. The first request carries \<open>Bearer a1\<close>,
  the token of the store, and gets a 401; the refresh returns \<open>a2\<close>; the retry carries
  \<open>Bearer a2\<close>, the token the store holds by then, and is accepted.
\<close>

theorem requests_carry_current_token_witness:
  "accessToken (store ex_state) = Str ''a1'' \<and>
   accessToken (setTokens (Str ''a2'') (Str ''r2'') ex_store) = Str ''a2'' \<and>
   apiClient
     (ex_server ''a2'' (Fulfilled \<lparr>status = 200,
        data = Object [(''access_token'', Str ''a2''), (''refresh_token'', Str ''r2'')]\<rparr>))
     ex_state ex_config =
   (Resolved \<lparr>status = 200, data = Text ''ok''\<rparr>,
    \<lparr>store = \<lparr>accessToken = Str ''a2'', refreshToken = Str ''r2''\<rparr>, href = ''/'',
     trace =
       [Dispatched ex_store
          (ex_config\<lparr>baseURL := Some ''/api/v1'',
             headers := Some [(''Content-Type'', ''application/json''),
                              (''Authorization'', ''Bearer a1'')]\<rparr>),
        RefreshPost
          \<lparr>url = ''/api/v1/auth/refresh'', http_method = ''post'', baseURL = None,
           headers = None, params = [(''refresh_token'', Str ''r1'')], body = Nullish,
           retry = False\<rparr>,
        SetTokens (Str ''a2'') (Str ''r2''),
        Dispatched \<lparr>accessToken = Str ''a2'', refreshToken = Str ''r2''\<rparr>
          (ex_config\<lparr>baseURL := Some ''/api/v1'',
             headers := Some [(''Content-Type'', ''application/json''),
                              (''Authorization'', ''Bearer a2'')],
             retry := True\<rparr>)]\<rparr>)"
  using requests_carry_current_token
    [where w = "ex_server ''a2'' (Fulfilled \<lparr>status = 200,
             data = Object [(''access_token'', Str ''a2''), (''refresh_token'', Str ''r2'')]\<rparr>)"
       and cs = ex_state and cfg = ex_config and t = "''a1''"]
    requests_carry_current_token
    [where w = "ex_server ''a2'' (Fulfilled \<lparr>status = 200,
             data = Object [(''access_token'', Str ''a2''), (''refresh_token'', Str ''r2'')]\<rparr>)"
       and cs = "ex_state\<lparr>trace :=
             [Dispatched ex_store
                (ex_config\<lparr>baseURL := Some ''/api/v1'',
                   headers := Some [(''Content-Type'', ''application/json''),
                                    (''Authorization'', ''Bearer a1'')]\<rparr>)]\<rparr>"
       and e = "\<lparr>err_config =
                   ex_config\<lparr>baseURL := Some ''/api/v1'',
                     headers := Some [(''Content-Type'', ''application/json''),
                                      (''Authorization'', ''Bearer a1'')]\<rparr>,
                 err_code = ''ERR_BAD_RESPONSE'',
                 err_response = Some \<lparr>status = 401, data = Nullish\<rparr>\<rparr>"
       and resp' = "\<lparr>status = 200,
             data = Object [(''access_token'', Str ''a2''), (''refresh_token'', Str ''r2'')]\<rparr>"
       and a = "Str ''a2''" and rt = "Str ''r2''" and t' = "''a2''"]
  by (simp add: ex_defs)

subsection \<open>A failed refresh\<close>

text \<open>
  C4. When a fresh 401 is followed by a refresh call that fails, the client clears the
  store, sets the location to \<open>/login\<close>, and rejects with the error of the original
  request (its config now marked retried): it has the original 401 response and code,
  not those of the refresh call.
\<close>

theorem refresh_failure_forces_login:
  assumes "status_is_401 e" and "\<not> retry (err_config e)"
    and "truthy (refreshToken (store cs))"
    and "bare_post w (trace cs) (refresh_request w (refreshToken (store cs))) = Failed code resp"
  shows "onRejected w cs e =
           (Rejected (e\<lparr>err_config := (err_config e)\<lparr>retry := True\<rparr>\<rparr>),
            cs\<lparr>store := logout (store cs), href := ''/login'',
               trace := trace cs @
                 [RefreshPost (refresh_request w (refreshToken (store cs))),
                  Logout, Navigate ''/login'']\<rparr>) \<and>
         accessToken (store (snd (onRejected w cs e))) = Null \<and>
         refreshToken (store (snd (onRejected w cs e))) = Null \<and>
         href (snd (onRejected w cs e)) = ''/login'' \<and>
         (\<exists>e'. fst (onRejected w cs e) = Rejected e' \<and> status_is_401 e' \<and>
               err_response e' = err_response e \<and> err_code e' = err_code e \<and>
               url (err_config e') = url (err_config e))"
proof -
  have run: "onRejected w cs e =
      (Rejected (e\<lparr>err_config := (err_config e)\<lparr>retry := True\<rparr>\<rparr>),
       logout_and_redirect
         (cs\<lparr>trace := trace cs @
            [RefreshPost (refresh_request w (refreshToken (store cs)))]\<rparr>))"
    using assms by (rule onRejected_refresh_failed)
  show ?thesis
    using assms(1) by (simp add: run logout_and_redirect_def)
qed

theorem refresh_failure_forces_login_witness:
  "status_is_401 ex_401 \<and> \<not> retry (err_config ex_401) \<and>
   truthy (refreshToken (store ex_state)) \<and>
   onRejected (ex_server ''a2'' (answer 500)) ex_state ex_401 =
     (Rejected (ex_401\<lparr>err_config := (err_config ex_401)\<lparr>retry := True\<rparr>\<rparr>),
      \<lparr>store = \<lparr>accessToken = Null, refreshToken = Null\<rparr>, href = ''/login'',
       trace = [RefreshPost (refresh_request (ex_server ''a2'' (answer 500)) (Str ''r1'')),
                Logout, Navigate ''/login'']\<rparr>) \<and>
   err_response (ex_401\<lparr>err_config := (err_config ex_401)\<lparr>retry := True\<rparr>\<rparr>) =
     Some \<lparr>status = 401, data = Nullish\<rparr>"
  using refresh_failure_forces_login
    [where w = "ex_server ''a2'' (answer 500)" and cs = ex_state and e = ex_401
       and code = "''ERR_BAD_RESPONSE''" and resp = "Some \<lparr>status = 500, data = Nullish\<rparr>"]
  by (simp add: ex_defs ex_401_def)

subsection \<open>No refresh token\<close>

text \<open>
  C5. When a fresh 401 finds no refresh token in the store (absent or empty), the client
  clears the store, sets the location to \<open>/login\<close> and rejects with the original 401
  error (its config now marked retried). No refresh call is made and nothing is sent.
\<close>

theorem missing_refresh_token_forces_login:
  assumes "status_is_401 e" and "\<not> retry (err_config e)"
    and "\<not> truthy (refreshToken (store cs))"
  shows "onRejected w cs e =
           (Rejected (e\<lparr>err_config := (err_config e)\<lparr>retry := True\<rparr>\<rparr>),
            cs\<lparr>store := logout (store cs), href := ''/login'',
               trace := trace cs @ [Logout, Navigate ''/login'']\<rparr>) \<and>
         accessToken (store (snd (onRejected w cs e))) = Null \<and>
         refreshToken (store (snd (onRejected w cs e))) = Null \<and>
         href (snd (onRejected w cs e)) = ''/login'' \<and>
         refresh_calls (trace (snd (onRejected w cs e))) = refresh_calls (trace cs) \<and>
         dispatches (trace (snd (onRejected w cs e))) = dispatches (trace cs) \<and>
         (\<exists>e'. fst (onRejected w cs e) = Rejected e' \<and> status_is_401 e' \<and>
               err_response e' = err_response e \<and> err_code e' = err_code e)"
proof -
  have run: "onRejected w cs e =
      (Rejected (e\<lparr>err_config := (err_config e)\<lparr>retry := True\<rparr>\<rparr>), logout_and_redirect cs)"
    using assms by (rule onRejected_no_refresh_token)
  show ?thesis
    using assms(1) by (simp add: run logout_and_redirect_def)
qed

theorem missing_refresh_token_forces_login_witness:
  "status_is_401 ex_401 \<and> \<not> retry (err_config ex_401) \<and>
   \<not> truthy (refreshToken (store (ex_state\<lparr>store := \<lparr>accessToken = Str ''a1'', refreshToken = Null\<rparr>\<rparr>))) \<and>
   onRejected (ex_server ''a2'' (answer 200))
     (ex_state\<lparr>store := \<lparr>accessToken = Str ''a1'', refreshToken = Null\<rparr>\<rparr>) ex_401 =
     (Rejected (ex_401\<lparr>err_config := (err_config ex_401)\<lparr>retry := True\<rparr>\<rparr>),
      \<lparr>store = \<lparr>accessToken = Null, refreshToken = Null\<rparr>, href = ''/login'',
       trace = [Logout, Navigate ''/login'']\<rparr>)"
  using missing_refresh_token_forces_login
    [where w = "ex_server ''a2'' (answer 200)"
       and cs = "ex_state\<lparr>store := \<lparr>accessToken = Str ''a1'', refreshToken = Null\<rparr>\<rparr>"
       and e = ex_401]
  by (simp add: ex_defs ex_401_def)

subsection \<open>Pass-through outside the 401 recovery\<close>

text \<open>
  C6. The client is a pass-through outside the 401 recovery. The success handler returns
  its response unchanged, so a request whose dispatch resolves yields exactly that
  response, with one request sent and nothing else done. An error that is not a fresh
  401 (a network error without a response, an HTTP error with another status, or an
  error of a request already marked retried) is rejected unchanged, and the state,
  trace included, is as before: no refresh call and no retry.
\<close>

theorem passthrough_outside_recovery:
  "response_onFulfilled r = r \<and>
   (adapter w (trace cs) (request_onFulfilled (store cs) (mergeConfig w cfg)) = Fulfilled r \<longrightarrow>
      apiClient w cs cfg =
        (Resolved r,
         cs\<lparr>trace := trace cs @
               [Dispatched (store cs) (request_onFulfilled (store cs) (mergeConfig w cfg))]\<rparr>)) \<and>
   (err_response e = None \<or> (\<exists>r'. err_response e = Some r' \<and> status r' \<noteq> 401)
      \<or> retry (err_config e) \<longrightarrow>
      onRejected w cs e = (Rejected e, cs))"
proof (intro conjI impI)
  show "response_onFulfilled r = r"
    by (simp add: response_onFulfilled_def)
next
  assume "adapter w (trace cs) (request_onFulfilled (store cs) (mergeConfig w cfg)) = Fulfilled r"
  then show "apiClient w cs cfg =
      (Resolved r,
       cs\<lparr>trace := trace cs @
             [Dispatched (store cs) (request_onFulfilled (store cs) (mergeConfig w cfg))]\<rparr>)"
    by (simp add: apiClient.simps Let_def response_onFulfilled_def)
next
  assume "err_response e = None \<or> (\<exists>r'. err_response e = Some r' \<and> status r' \<noteq> 401)
      \<or> retry (err_config e)"
  then have "\<not> (status_is_401 e \<and> \<not> retry (err_config e))"
    by (auto simp: status_is_401_def)
  then show "onRejected w cs e = (Rejected e, cs)"
    by (rule onRejected_passthrough)
qed

theorem passthrough_outside_recovery_witness:
  "apiClient (ex_server ''a1'' (answer 500)) ex_state ex_config =
     (Resolved \<lparr>status = 200, data = Text ''ok''\<rparr>,
      ex_state\<lparr>trace :=
        [Dispatched ex_store
           (request_onFulfilled ex_store (mergeConfig (ex_server ''a1'' (answer 500)) ex_config))]\<rparr>) \<and>
   onRejected (ex_server ''a1'' (answer 500)) ex_state (ex_error ex_config None) =
     (Rejected (ex_error ex_config None), ex_state)"
  using passthrough_outside_recovery
    [where w = "ex_server ''a1'' (answer 500)" and cs = ex_state and cfg = ex_config
       and r = "\<lparr>status = 200, data = Text ''ok''\<rparr>" and e = "ex_error ex_config None"]
  by (simp add: ex_server_def ex_state_def ex_store_def ex_config_def ex_error_def answer_def
      authorization_def request_onFulfilled_def mergeConfig_def default_headers_def
      truthy_def bearer_def template_def Let_def)

subsection \<open>The token pair is replaced together\<close>




subsection \<open>The refresh call bypasses the interceptors\<close>

text \<open>
  C8. The refresh call is made on the bare axios instance: its config has no headers of
  its own, hence no Authorization header, and its outcome is handled inside the error
  handler, never by a nested call of it. The error handler makes at most one refresh
  call; when that call itself fails with a 401, the handler logs out, redirects and
  rejects with the original error, without a second refresh call.
\<close>

theorem refresh_call_bypasses_interceptors:
  "headers (refresh_request w t) = None \<and>
   authorization (refresh_request w t) = None \<and>
   refresh_calls (new_events cs (snd (onRejected w cs e))) \<le> 1 \<and>
   (status_is_401 e \<and> \<not> retry (err_config e) \<and> truthy (refreshToken (store cs)) \<and>
    bare_post w (trace cs) (refresh_request w (refreshToken (store cs))) =
      Failed code (Some r) \<and> status r = 401 \<longrightarrow>
      new_events cs (snd (onRejected w cs e)) =
        [RefreshPost (refresh_request w (refreshToken (store cs))),
         Logout, Navigate ''/login''] \<and>
      fst (onRejected w cs e) = Rejected (e\<lparr>err_config := (err_config e)\<lparr>retry := True\<rparr>\<rparr>))"
proof -
  obtain evs where evs: "trace (snd (onRejected w cs e)) = trace cs @ evs"
      "refresh_calls evs \<le> 1"
    using onRejected_new_events [of w cs e] by blast
  have "headers (refresh_request w t) = None" "authorization (refresh_request w t) = None"
    by (simp_all add: refresh_request_def authorization_def)
  moreover have "refresh_calls (new_events cs (snd (onRejected w cs e))) \<le> 1"
    using evs by simp
  moreover have "status_is_401 e \<and> \<not> retry (err_config e) \<and> truthy (refreshToken (store cs)) \<and>
    bare_post w (trace cs) (refresh_request w (refreshToken (store cs))) =
      Failed code (Some r) \<and> status r = 401 \<longrightarrow>
      new_events cs (snd (onRejected w cs e)) =
        [RefreshPost (refresh_request w (refreshToken (store cs))),
         Logout, Navigate ''/login''] \<and>
      fst (onRejected w cs e) = Rejected (e\<lparr>err_config := (err_config e)\<lparr>retry := True\<rparr>\<rparr>)"
    by (simp add: onRejected_refresh_failed logout_and_redirect_def new_events_def)
  ultimately show ?thesis
    by blast
qed

theorem refresh_call_bypasses_interceptors_witness:
  "status_is_401 ex_401 \<and> \<not> retry (err_config ex_401) \<and>
   truthy (refreshToken (store ex_state)) \<and>
   new_events ex_state (snd (onRejected (ex_server ''a2'' (answer 401)) ex_state ex_401)) =
     [RefreshPost (refresh_request (ex_server ''a2'' (answer 401)) (Str ''r1'')),
      Logout, Navigate ''/login''] \<and>
   fst (onRejected (ex_server ''a2'' (answer 401)) ex_state ex_401) =
     Rejected (ex_401\<lparr>err_config := (err_config ex_401)\<lparr>retry := True\<rparr>\<rparr>)"
  using refresh_call_bypasses_interceptors
    [where w = "ex_server ''a2'' (answer 401)" and cs = ex_state and e = ex_401
       and code = "''ERR_BAD_RESPONSE''" and r = "\<lparr>status = 401, data = Nullish\<rparr>"]
  by (simp add: ex_defs ex_401_def)

subsection \<open>No side effects outside the refresh flow\<close>

text \<open>
  C9. On every error path that does not enter the refresh flow (the error is not a 401,
  or its request is already marked retried) the error is rejected as it came and the
  whole client state is what it was: the store, the location and the trace are
  unchanged, so there is no store update and no navigation.
\<close>

theorem no_effects_outside_refresh_flow:
  assumes "\<not> status_is_401 e \<or> retry (err_config e)"
  shows "fst (onRejected w cs e) = Rejected e \<and>
         snd (onRejected w cs e) = cs \<and>
         store (snd (onRejected w cs e)) = store cs \<and>
         href (snd (onRejected w cs e)) = href cs \<and>
         trace (snd (onRejected w cs e)) = trace cs"
proof -
  from assms have "\<not> (status_is_401 e \<and> \<not> retry (err_config e))"
    by blast
  then have "onRejected w cs e = (Rejected e, cs)"
    by (rule onRejected_passthrough)
  then show ?thesis
    by simp
qed

theorem no_effects_outside_refresh_flow_witness:
  "retry (ex_config\<lparr>retry := True\<rparr>) \<and>
   status_is_401 (ex_error (ex_config\<lparr>retry := True\<rparr>) (Some \<lparr>status = 401, data = Nullish\<rparr>)) \<and>
   onRejected (ex_server ''a2'' (answer 500)) ex_state
     (ex_error (ex_config\<lparr>retry := True\<rparr>) (Some \<lparr>status = 401, data = Nullish\<rparr>)) =
     (Rejected (ex_error (ex_config\<lparr>retry := True\<rparr>) (Some \<lparr>status = 401, data = Nullish\<rparr>)),
      ex_state)"
  using no_effects_outside_refresh_flow
    [where w = "ex_server ''a2'' (answer 500)" and cs = ex_state
       and e = "ex_error (ex_config\<lparr>retry := True\<rparr>) (Some \<lparr>status = 401, data = Nullish\<rparr>)"]
  by (simp add: ex_error_def status_is_401_def prod_eq_iff)

subsection \<open>The request interceptor without a token\<close>

text \<open>
  As stated, C10 says that a request sent while the store holds no access token has no
  Authorization header. The interceptor does not remove a header: a config that already
  has one keeps it.
\<close>

theorem no_token_no_header_counterexample:
  "\<not> truthy (accessToken \<lparr>accessToken = Null, refreshToken = Null\<rparr>) \<and>
   authorization
     (request_onFulfilled \<lparr>accessToken = Null, refreshToken = Null\<rparr>
        (ex_config\<lparr>headers := Some [(''Authorization'', ''Bearer undefined'')]\<rparr>)) =
     Some ''Bearer undefined''"
  by (simp add: truthy_def request_onFulfilled_def authorization_def)

text \<open>
  Such a config arises in the client itself. When a refresh response has no
  \<open>access_token\<close> field, line 46 stores an undefined access token, line 50 writes
  \<open>Bearer undefined\<close>, and the request interceptor, seeing no token, leaves that header
  on the request it sends.
\<close>

lemma retry_after_tokenless_refresh_example:
  "new_events ex_state
     (snd (apiClient (ex_server ''a2'' (Fulfilled \<lparr>status = 200, data = Object []\<rparr>))
        ex_state ex_config)) =
   [Dispatched ex_store
      (ex_config\<lparr>baseURL := Some ''/api/v1'',
         headers := Some [(''Content-Type'', ''application/json''), (''Authorization'', ''Bearer a1'')]\<rparr>),
    RefreshPost (refresh_request (ex_server ''a2'' (Fulfilled \<lparr>status = 200, data = Object []\<rparr>)) (Str ''r1'')),
    SetTokens Undefined Undefined,
    Dispatched \<lparr>accessToken = Undefined, refreshToken = Undefined\<rparr>
      (ex_config\<lparr>baseURL := Some ''/api/v1'',
         headers := Some [(''Content-Type'', ''application/json''),
                          (''Authorization'', ''Bearer undefined'')],
         retry := True\<rparr>)]"
  by (simp add: apiClient.simps onRejected.simps ex_defs response_onFulfilled_def new_events_def)

text \<open>
  C10, amended. When the store holds no access token (absent or empty) at send time, the
  request interceptor returns the config as it received it: it writes no bearer value,
  the headers are untouched, and the request is dispatched with an Authorization header
  exactly when its config already had one.
\<close>

theorem request_interceptor_without_token:
  assumes "\<not> truthy (accessToken st)"
  shows "request_onFulfilled st cfg = cfg \<and>
         headers (request_onFulfilled st cfg) = headers cfg \<and>
         authorization (request_onFulfilled st cfg) = authorization cfg \<and>
         authorization (request_onFulfilled st (mergeConfig w cfg)) = authorization cfg"
  using assms by (simp add: request_onFulfilled_falsy)

theorem request_interceptor_without_token_witness:
  "\<not> truthy (accessToken \<lparr>accessToken = Str [], refreshToken = Null\<rparr>) \<and>
   request_onFulfilled \<lparr>accessToken = Str [], refreshToken = Null\<rparr> ex_config = ex_config \<and>
   authorization (request_onFulfilled \<lparr>accessToken = Str [], refreshToken = Null\<rparr>
     (mergeConfig (ex_server ''a2'' (answer 500)) ex_config)) = None"
  using request_interceptor_without_token
    [where st = "\<lparr>accessToken = Str [], refreshToken = Null\<rparr>" and cfg = ex_config
       and w = "ex_server ''a2'' (answer 500)"]
  by (simp add: truthy_def authorization_def ex_config_def)

end
